theory Spec2Isabelle
  imports Complex_Main
begin

section \<open>The two-reservoir DBO model and its Runge-Kutta driver\<close>

text \<open>
  A shallow embedding of \<^verbatim>\<open>modelo_dbo_app.py\<close>: the derivative function
  \<^verbatim>\<open>derivadas\<close>, the body of the \<^verbatim>\<open>for i in range(N)\<close> loop, the loop itself and
  the module-level code that sets the constants, computes \<^verbatim>\<open>N\<close> and starts the lists.

  Python's floats are read as exact reals: every sum, product and quotient below is the
  exact one, so no rounding, overflow or NaN is part of the model. The one exception a
  float quotient can raise, \<^verbatim>\<open>ZeroDivisionError\<close>, is kept as a value.
  The shell line that opens the file, the Streamlit page and slider calls and the plotting
  code are not part of the model; the two slider values enter as parameters.

  The module-level constants of the script are collected in a record, so that statements
  that vary them (no decay, no boundary exchange, another step size) can be made about
  the same code; \<open>fixed_params\<close> gives them the values the script assigns, as a function
  of the two slider inputs.
\<close>

subsection \<open>Errors and parameters\<close>

datatype error = ZeroDivisionError

record params =
  L_input :: real
  CB :: real
  t_descarga :: real
  V1 :: real
  V2 :: real
  D1B :: real
  D12 :: real
  k1 :: real
  k2 :: real
  Tmax :: real
  dt :: real
  C1_0 :: real
  C2_0 :: real

text \<open>The fixed geometry of the two connections, as the script assigns it.\<close>

definition A1B :: real where "A1B = 25"
definition L1B :: real where "L1B = 80"
definition E1B :: real where "E1B = 0.6"

definition A12 :: real where "A12 = 18"
definition L12 :: real where "L12 = 120"
definition E12 :: real where "E12 = 0.4"

text \<open>
  The script's assignments, in its order; \<open>l\<close> and \<open>cb\<close> are the values of the two
  sliders. \<open>C1_0\<close> and \<open>C2_0\<close> are the initial values of \<^verbatim>\<open>C1\<close> and \<^verbatim>\<open>C2\<close>.
\<close>

definition fixed_params :: "real \<Rightarrow> real \<Rightarrow> params" where
  "fixed_params l cb =
     \<lparr> L_input = l, CB = cb, t_descarga = 1.0,
       V1 = 100000, V2 = 200000,
       D1B = E1B * A1B / L1B * 86400,
       D12 = E12 * A12 / L12 * 86400,
       k1 = 0.2, k2 = 0.1,
       Tmax = 30, dt = 0.1,
       C1_0 = 0.0, C2_0 = 0.0 \<rparr>"

subsection \<open>The derivative function\<close>

text \<open>
  \<^verbatim>\<open>derivadas(C1, C2, t)\<close>. The quotients \<^verbatim>\<open>1/V1\<close> and \<^verbatim>\<open>1/V2\<close> raise on a zero
  volume; they are evaluated in the order of the two assignments.
\<close>

definition derivadas :: "params \<Rightarrow> real \<Rightarrow> real \<Rightarrow> real \<Rightarrow> error + real \<times> real" where
  "derivadas p c1 c2 tm =
     (let L = (if tm < t_descarga p then L_input p else 0.0) in
      if V1 p = 0 then Inl ZeroDivisionError
      else
        let dC1_dt = (1 / V1 p) * (D1B p * (CB p - c1) + D12 p * (c2 - c1) + L) - k1 p * c1 in
        if V2 p = 0 then Inl ZeroDivisionError
        else
          let dC2_dt = (1 / V2 p) * (D12 p * (c1 - c2)) - k2 p * c2 in
          Inr (dC1_dt, dC2_dt))"

subsection \<open>The integration loop\<close>

text \<open>The variables the loop reads and writes: the current point and the three lists.\<close>

record vars =
  C1 :: real
  C2 :: real
  t :: real
  t_list :: "real list"
  C1_list :: "real list"
  C2_list :: "real list"

text \<open>One pass through the body of \<^verbatim>\<open>for i in range(N)\<close>.\<close>

definition rk4_body :: "params \<Rightarrow> vars \<Rightarrow> error + vars" where
  "rk4_body p s =
     (case derivadas p (C1 s) (C2 s) (t s) of
        Inl e \<Rightarrow> Inl e
      | Inr (k1_1, k2_1) \<Rightarrow>
     (case derivadas p (C1 s + dt p * k1_1 / 2) (C2 s + dt p * k2_1 / 2) (t s + dt p / 2) of
        Inl e \<Rightarrow> Inl e
      | Inr (k1_2, k2_2) \<Rightarrow>
     (case derivadas p (C1 s + dt p * k1_2 / 2) (C2 s + dt p * k2_2 / 2) (t s + dt p / 2) of
        Inl e \<Rightarrow> Inl e
      | Inr (k1_3, k2_3) \<Rightarrow>
     (case derivadas p (C1 s + dt p * k1_3) (C2 s + dt p * k2_3) (t s + dt p) of
        Inl e \<Rightarrow> Inl e
      | Inr (k1_4, k2_4) \<Rightarrow>
          let C1' = C1 s + (dt p / 6) * (k1_1 + 2 * k1_2 + 2 * k1_3 + k1_4);
              C2' = C2 s + (dt p / 6) * (k2_1 + 2 * k2_2 + 2 * k2_3 + k2_4);
              t' = t s + dt p
          in Inr \<lparr> C1 = C1', C2 = C2', t = t',
                   t_list = t_list s @ [t'],
                   C1_list = C1_list s @ [C1'],
                   C2_list = C2_list s @ [C2'] \<rparr>))))"

text \<open>The loop: \<open>n\<close> passes, stopping at the first exception.\<close>

fun rk4_loop :: "params \<Rightarrow> nat \<Rightarrow> vars \<Rightarrow> error + vars" where
  "rk4_loop p 0 s = Inr s"
| "rk4_loop p (Suc n) s =
     (case rk4_body p s of Inl e \<Rightarrow> Inl e | Inr s' \<Rightarrow> rk4_loop p n s')"

text \<open>
  \<^verbatim>\<open>int(x)\<close> on a float truncates towards zero; \<^verbatim>\<open>range(N)\<close> is empty for
  \<^verbatim>\<open>N \<le> 0\<close>, which \<open>nat\<close> gives.
\<close>

definition py_int :: "real \<Rightarrow> int" where
  "py_int x = (if 0 \<le> x then \<lfloor>x\<rfloor> else \<lceil>x\<rceil>)"

definition init_vars :: "params \<Rightarrow> vars" where
  "init_vars p =
     \<lparr> C1 = C1_0 p, C2 = C2_0 p, t = 0,
       t_list = [0], C1_list = [C1_0 p], C2_list = [C2_0 p] \<rparr>"

text \<open>
  The script from \<^verbatim>\<open>N = int(Tmax / dt)\<close> to the end of the loop; the result holds the
  three lists that are plotted.
\<close>

definition simulate :: "params \<Rightarrow> error + vars" where
  "simulate p =
     (if dt p = 0 then Inl ZeroDivisionError
      else
        let N = py_int (Tmax p / dt p) in
        rk4_loop p (nat N) (init_vars p))"

text \<open>The trajectory the three lists hold: one sample \<open>(t, C1, C2)\<close> per index.\<close>

definition trajectory :: "vars \<Rightarrow> (real \<times> real \<times> real) list" where
  "trajectory s = zip (t_list s) (zip (C1_list s) (C2_list s))"

subsection \<open>The specification's equations\<close>

text \<open>
  The source term, the two balance equations and the classical four-stage step, written
  from the specification's formulas; the code is compared with them below.
\<close>

definition spec_L :: "params \<Rightarrow> real \<Rightarrow> real" where
  "spec_L p tm = (if tm < t_descarga p then L_input p else 0)"

definition spec_Model :: "params \<Rightarrow> real \<Rightarrow> real \<Rightarrow> real \<Rightarrow> real \<times> real" where
  "spec_Model p c1 c2 tm =
     ((1 / V1 p) * (D1B p * (CB p - c1) + D12 p * (c2 - c1) + spec_L p tm) - k1 p * c1,
      (1 / V2 p) * (D12 p * (c1 - c2)) - k2 p * c2)"

definition spec_step :: "params \<Rightarrow> real \<times> real \<times> real \<Rightarrow> real \<times> real \<times> real" where
  "spec_step p x =
     (case x of (tm, c1, c2) \<Rightarrow>
        let h = dt p;
            k_a = spec_Model p c1 c2 tm;
            k_b = spec_Model p (c1 + h / 2 * fst k_a) (c2 + h / 2 * snd k_a) (tm + h / 2);
            k_c = spec_Model p (c1 + h / 2 * fst k_b) (c2 + h / 2 * snd k_b) (tm + h / 2);
            k_d = spec_Model p (c1 + h * fst k_c) (c2 + h * snd k_c) (tm + h)
        in (tm + h,
            c1 + (h / 6) * (fst k_a + 2 * fst k_b + 2 * fst k_c + fst k_d),
            c2 + (h / 6) * (snd k_a + 2 * snd k_b + 2 * snd k_c + snd k_d)))"

subsection \<open>Auxiliary definitions\<close>

text \<open>
  The current point of the loop as a sample, the effect of one pass that cannot raise,
  the initial sample, the number of passes and the weighted mass of a sample. They are
  used to state and prove the properties of the loop.
\<close>

definition cur :: "vars \<Rightarrow> real \<times> real \<times> real" where
  "cur s = (t s, C1 s, C2 s)"

definition record_sample :: "real \<times> real \<times> real \<Rightarrow> vars \<Rightarrow> vars" where
  "record_sample x s =
     (case x of (tm, c1, c2) \<Rightarrow>
        \<lparr> C1 = c1, C2 = c2, t = tm,
          t_list = t_list s @ [tm], C1_list = C1_list s @ [c1], C2_list = C2_list s @ [c2] \<rparr>)"

definition advance :: "params \<Rightarrow> vars \<Rightarrow> vars" where
  "advance p s = record_sample (spec_step p (cur s)) s"

definition x0 :: "params \<Rightarrow> real \<times> real \<times> real" where
  "x0 p = (0, C1_0 p, C2_0 p)"

definition steps :: "params \<Rightarrow> nat" where
  "steps p = nat (py_int (Tmax p / dt p))"

definition mass :: "params \<Rightarrow> real \<times> real \<times> real \<Rightarrow> real" where
  "mass p x = V1 p * fst (snd x) + V2 p * snd (snd x)"

text \<open>
  A configuration with no decay, no exchange with the bay and no load, where only the
  exchange between the two bodies is left, started away from equilibrium.
\<close>

definition exchange_only :: params where
  "exchange_only = (fixed_params 0 1)\<lparr>D1B := 0, k1 := 0, k2 := 0, C1_0 := 5, C2_0 := 1\<rparr>"

section \<open>Properties\<close>

subsection \<open>The code against the specification's equations\<close>

lemma derivadas_Inr:
  assumes "V1 p \<noteq> 0" and "V2 p \<noteq> 0"
  shows "derivadas p c1 c2 tm = Inr (spec_Model p c1 c2 tm)"
  using assms by (simp add: derivadas_def spec_Model_def spec_L_def)

lemma rk4_body_Inr:
  assumes "V1 p \<noteq> 0" and "V2 p \<noteq> 0"
  shows "rk4_body p s = Inr (advance p s)"
  unfolding rk4_body_def derivadas_Inr [OF assms]
  by (simp add: advance_def record_sample_def spec_step_def cur_def Let_def split_beta)

lemma rk4_loop_Inr:
  assumes "V1 p \<noteq> 0" and "V2 p \<noteq> 0"
  shows "rk4_loop p n s = Inr ((advance p ^^ n) s)"
proof (induction n arbitrary: s)
  case 0
  show ?case by simp
next
  case (Suc n)
  show ?case
    by (simp add: rk4_body_Inr [OF assms] Suc.IH funpow_swap1)
qed

lemma cur_advance: "cur (advance p s) = spec_step p (cur s)"
  by (simp add: advance_def record_sample_def cur_def split_beta)

lemma cur_funpow: "cur ((advance p ^^ n) s) = (spec_step p ^^ n) (cur s)"
  by (induction n) (simp_all add: cur_advance)

lemma t_list_advance: "t_list (advance p s) = t_list s @ [fst (spec_step p (cur s))]"
  by (simp add: advance_def record_sample_def split_beta)

lemma C1_list_advance: "C1_list (advance p s) = C1_list s @ [fst (snd (spec_step p (cur s)))]"
  by (simp add: advance_def record_sample_def split_beta)

lemma C2_list_advance: "C2_list (advance p s) = C2_list s @ [snd (snd (spec_step p (cur s)))]"
  by (simp add: advance_def record_sample_def split_beta)

lemma cur_init: "cur (init_vars p) = x0 p"
  by (simp add: cur_def init_vars_def x0_def)

lemma t_list_funpow:
  "t_list ((advance p ^^ n) (init_vars p)) = map (\<lambda>i. fst ((spec_step p ^^ i) (x0 p))) [0..<Suc n]"
proof (induction n)
  case 0
  show ?case by (simp add: init_vars_def x0_def)
next
  case (Suc n)
  have "t_list ((advance p ^^ Suc n) (init_vars p)) =
        t_list ((advance p ^^ n) (init_vars p)) @ [fst ((spec_step p ^^ Suc n) (x0 p))]"
    by (simp add: t_list_advance cur_funpow cur_init)
  then show ?case
    unfolding Suc.IH by simp
qed

lemma C1_list_funpow:
  "C1_list ((advance p ^^ n) (init_vars p)) =
     map (\<lambda>i. fst (snd ((spec_step p ^^ i) (x0 p)))) [0..<Suc n]"
proof (induction n)
  case 0
  show ?case by (simp add: init_vars_def x0_def)
next
  case (Suc n)
  have "C1_list ((advance p ^^ Suc n) (init_vars p)) =
        C1_list ((advance p ^^ n) (init_vars p)) @ [fst (snd ((spec_step p ^^ Suc n) (x0 p)))]"
    by (simp add: C1_list_advance cur_funpow cur_init)
  then show ?case
    unfolding Suc.IH by simp
qed

lemma C2_list_funpow:
  "C2_list ((advance p ^^ n) (init_vars p)) =
     map (\<lambda>i. snd (snd ((spec_step p ^^ i) (x0 p)))) [0..<Suc n]"
proof (induction n)
  case 0
  show ?case by (simp add: init_vars_def x0_def)
next
  case (Suc n)
  have "C2_list ((advance p ^^ Suc n) (init_vars p)) =
        C2_list ((advance p ^^ n) (init_vars p)) @ [snd (snd ((spec_step p ^^ Suc n) (x0 p)))]"
    by (simp add: C2_list_advance cur_funpow cur_init)
  then show ?case
    unfolding Suc.IH by simp
qed

lemma trajectory_funpow:
  "trajectory ((advance p ^^ n) (init_vars p)) = map (\<lambda>i. (spec_step p ^^ i) (x0 p)) [0..<Suc n]"
  unfolding trajectory_def t_list_funpow C1_list_funpow C2_list_funpow
  by (simp only: zip_map_map zip_same_conv_map map_map o_def split_conv prod.collapse)

lemma simulate_Inr:
  assumes "V1 p \<noteq> 0" and "V2 p \<noteq> 0" and "dt p \<noteq> 0"
  shows "simulate p = Inr ((advance p ^^ steps p) (init_vars p))"
  using assms(3) by (simp add: simulate_def steps_def rk4_loop_Inr [OF assms(1,2)])



lemma mass_rate:
  assumes "k1 p = 0" and "k2 p = 0" and "D1B p = 0" and "L_input p = 0"
    and "V1 p \<noteq> 0" and "V2 p \<noteq> 0"
  shows "V1 p * fst (spec_Model p c1 c2 tm) + V2 p * snd (spec_Model p c1 c2 tm) = 0"
  using assms by (simp add: spec_Model_def spec_L_def algebra_simps)

lemma mass_spec_step:
  assumes "k1 p = 0" and "k2 p = 0" and "D1B p = 0" and "L_input p = 0"
    and "V1 p \<noteq> 0" and "V2 p \<noteq> 0"
  shows "mass p (spec_step p x) = mass p x"
proof -
  obtain tm c1 c2 where x: "x = (tm, c1, c2)"
    by (cases x) auto
  define h where "h = dt p"
  define ka where "ka = spec_Model p c1 c2 tm"
  define kb where "kb = spec_Model p (c1 + h / 2 * fst ka) (c2 + h / 2 * snd ka) (tm + h / 2)"
  define kc where "kc = spec_Model p (c1 + h / 2 * fst kb) (c2 + h / 2 * snd kb) (tm + h / 2)"
  define kd where "kd = spec_Model p (c1 + h * fst kc) (c2 + h * snd kc) (tm + h)"
  have a: "V1 p * fst ka + V2 p * snd ka = 0"
    unfolding ka_def by (rule mass_rate [OF assms])
  have b: "V1 p * fst kb + V2 p * snd kb = 0"
    unfolding kb_def by (rule mass_rate [OF assms])
  have c: "V1 p * fst kc + V2 p * snd kc = 0"
    unfolding kc_def by (rule mass_rate [OF assms])
  have d: "V1 p * fst kd + V2 p * snd kd = 0"
    unfolding kd_def by (rule mass_rate [OF assms])
  have "mass p (spec_step p x) =
        V1 p * (c1 + (h / 6) * (fst ka + 2 * fst kb + 2 * fst kc + fst kd)) +
        V2 p * (c2 + (h / 6) * (snd ka + 2 * snd kb + 2 * snd kc + snd kd))"
    by (simp add: mass_def spec_step_def x Let_def h_def ka_def kb_def kc_def kd_def)
  also have "\<dots> = V1 p * c1 + V2 p * c2 +
        (h / 6) * ((V1 p * fst ka + V2 p * snd ka) + 2 * (V1 p * fst kb + V2 p * snd kb) +
                   2 * (V1 p * fst kc + V2 p * snd kc) + (V1 p * fst kd + V2 p * snd kd))"
    by (simp add: algebra_simps)
  also have "\<dots> = V1 p * c1 + V2 p * c2"
    by (simp only: a b c d) simp
  finally show ?thesis
    by (simp add: mass_def x)
qed

lemma mass_funpow:
  assumes "k1 p = 0" and "k2 p = 0" and "D1B p = 0" and "L_input p = 0"
    and "V1 p \<noteq> 0" and "V2 p \<noteq> 0"
  shows "mass p ((spec_step p ^^ i) x) = mass p x"
  by (induction i) (simp_all add: mass_spec_step [OF assms])

lemma zero_spec_Model:
  assumes "L_input p = 0" and "CB p = 0"
  shows "spec_Model p 0 0 tm = (0, 0)"
  using assms by (simp add: spec_Model_def spec_L_def)

lemma zero_spec_step:
  assumes "L_input p = 0" and "CB p = 0"
  shows "spec_step p (tm, 0, 0) = (tm + dt p, 0, 0)"
  by (simp add: spec_step_def Let_def zero_spec_Model [OF assms])

lemma zero_funpow:
  assumes "L_input p = 0" and "CB p = 0"
  shows "(spec_step p ^^ i) (tm, 0, 0) = (tm + real i * dt p, 0, 0)"
  by (induction i) (simp_all add: zero_spec_step [OF assms] algebra_simps)



lemma trajectory_mass:
  assumes "k1 p = 0" and "k2 p = 0" and "D1B p = 0" and "L_input p = 0"
    and "V1 p \<noteq> 0" and "V2 p \<noteq> 0"
  shows "\<forall>x \<in> set (trajectory ((advance p ^^ n) (init_vars p))). mass p x = mass p (x0 p)"
  by (simp add: trajectory_funpow mass_funpow [OF assms] del: upt_Suc)


subsection \<open>The derivative function and the step\<close>

text \<open>
  Claim C1. For every state \<open>(c1, c2)\<close> and every time \<open>tm\<close>, \<open>derivadas\<close> returns
  exactly the two balance equations, \<open>dC1/dt = (1/V1) (D1B (CB - C1) + D12 (C2 - C1) + L(t)) - k1 C1\<close>
  and \<open>dC2/dt = (1/V2) (D12 (C1 - C2)) - k2 C2\<close>, with \<open>L(t)\<close> the source term that is
  \<open>L_input\<close> before \<open>t_descarga\<close> and zero from then on. The volumes are non-zero, as the
  script's are; on a zero volume the quotient raises.
\<close>

theorem derivadas_equations:
  assumes "V1 p \<noteq> 0" and "V2 p \<noteq> 0"
  shows "derivadas p c1 c2 tm =
           Inr ((1 / V1 p) * (D1B p * (CB p - c1) + D12 p * (c2 - c1)
                   + (if tm < t_descarga p then L_input p else 0)) - k1 p * c1,
                (1 / V2 p) * (D12 p * (c1 - c2)) - k2 p * c2)"
  using assms by (simp add: derivadas_def)

theorem derivadas_equations_witness:
  "V1 (fixed_params 1000000 1) \<noteq> 0 \<and> V2 (fixed_params 1000000 1) \<noteq> 0 \<and>
   derivadas (fixed_params 1000000 1) 2 3 0.5 = Inr (9.48984, - 0.32592) \<and>
   derivadas (fixed_params 1000000 1) 2 3 1 = Inr (- 0.51016, - 0.32592)"
proof -
  have v1: "V1 (fixed_params 1000000 1) \<noteq> 0" and v2: "V2 (fixed_params 1000000 1) \<noteq> 0"
    by (simp_all add: fixed_params_def)
  show ?thesis
    using derivadas_equations [OF v1 v2, of 2 3 "0.5"] derivadas_equations [OF v1 v2, of 2 3 1]
    by (simp add: fixed_params_def A1B_def L1B_def E1B_def A12_def L12_def E12_def)
qed

text \<open>
  Claim C2. One pass through the loop body computes the four classical Runge-Kutta stages
  (\<open>k_a\<close> at the current point, \<open>k_b\<close> and \<open>k_c\<close> at the half-step probes and time
  \<open>t + h/2\<close>, \<open>k_d\<close> at the full-step probe and time \<open>t + h\<close>, with \<open>h = dt\<close>),
  adds \<open>(h/6) (k_a + 2 k_b + 2 k_c + k_d)\<close> to each concentration and \<open>h\<close> to the time,
  and appends the new point to the three lists: it is \<open>spec_step\<close>, the step written from
  the specification.
\<close>

theorem rk4_body_classical:
  assumes "V1 p \<noteq> 0" and "V2 p \<noteq> 0"
  shows "rk4_body p s =
           (case spec_step p (t s, C1 s, C2 s) of
              (tm', c1', c2') \<Rightarrow>
                Inr \<lparr> C1 = c1', C2 = c2', t = tm',
                      t_list = t_list s @ [tm'],
                      C1_list = C1_list s @ [c1'],
                      C2_list = C2_list s @ [c2'] \<rparr>)"
  by (simp add: rk4_body_Inr [OF assms] advance_def record_sample_def cur_def split_beta)

theorem rk4_body_classical_witness:
  "V1 (fixed_params 1000000 1) \<noteq> 0 \<and> V2 (fixed_params 1000000 1) \<noteq> 0 \<and>
   rk4_body (fixed_params 1000000 1) (init_vars (fixed_params 1000000 1)) =
     Inr \<lparr> C1 = 233311423471006729883 / 234375000000000000000,
           C2 = 25264918968049233 / 19531250000000000000,
           t = 1 / 10,
           t_list = [0, 1 / 10],
           C1_list = [0, 233311423471006729883 / 234375000000000000000],
           C2_list = [0, 25264918968049233 / 19531250000000000000] \<rparr>"
proof -
  let ?p = "fixed_params 1000000 1"
  have v1: "V1 ?p \<noteq> 0" and v2: "V2 ?p \<noteq> 0"
    by (simp_all add: fixed_params_def)
  have st: "spec_step ?p (0, 0, 0) =
              (1 / 10, 233311423471006729883 / 234375000000000000000,
               25264918968049233 / 19531250000000000000)"
    by (simp add: spec_step_def spec_Model_def spec_L_def fixed_params_def Let_def
        A1B_def L1B_def E1B_def A12_def L12_def E12_def)
  have iv: "init_vars ?p =
              \<lparr> C1 = 0, C2 = 0, t = 0, t_list = [0], C1_list = [0], C2_list = [0] \<rparr>"
    by (simp add: init_vars_def fixed_params_def)
  show ?thesis
    using rk4_body_classical [OF v1 v2, of "init_vars ?p"] v1 v2
    unfolding iv by (simp add: st)
qed

text \<open>
  Claim C3. The source term is a hard cutoff. At every state and time the first component
  of \<open>derivadas\<close> exceeds the one computed without a source (\<open>L_input = 0\<close>) by exactly
  \<open>L_input / V1\<close> when \<open>tm < t_descarga\<close> and by exactly \<open>0\<close> when \<open>tm \<ge> t_descarga\<close>:
  the full load up to the cutoff, nothing from the cutoff on, with no ramp between. The
  second component does not see the source.
\<close>

theorem source_term_hard_cutoff:
  assumes "V1 p \<noteq> 0" and "V2 p \<noteq> 0"
  shows "\<exists>d1 d2 e1. derivadas p c1 c2 tm = Inr (d1, d2) \<and>
           derivadas (p\<lparr>L_input := 0\<rparr>) c1 c2 tm = Inr (e1, d2) \<and>
           d1 - e1 = (if tm < t_descarga p then L_input p / V1 p else 0)"
proof -
  let ?X = "D1B p * (CB p - c1) + D12 p * (c2 - c1)"
  let ?L = "if tm < t_descarga p then L_input p else 0"
  let ?d2 = "(1 / V2 p) * (D12 p * (c1 - c2)) - k2 p * c2"
  have with_source: "derivadas p c1 c2 tm = Inr ((1 / V1 p) * (?X + ?L) - k1 p * c1, ?d2)"
    using assms by (simp add: derivadas_def)
  have without: "derivadas (p\<lparr>L_input := 0\<rparr>) c1 c2 tm = Inr ((1 / V1 p) * ?X - k1 p * c1, ?d2)"
    using assms by (simp add: derivadas_def)
  have diff: "((1 / V1 p) * (?X + ?L) - k1 p * c1) - ((1 / V1 p) * ?X - k1 p * c1) =
              (if tm < t_descarga p then L_input p / V1 p else 0)"
    by (simp add: algebra_simps)
  show ?thesis
    using with_source without diff by blast
qed

theorem source_term_hard_cutoff_witness:
  "V1 (fixed_params 1000000 1) \<noteq> 0 \<and> V2 (fixed_params 1000000 1) \<noteq> 0 \<and>
   (\<exists>d1 d2 e1. derivadas (fixed_params 1000000 1) 2 3 0.999 = Inr (d1, d2) \<and>
      derivadas ((fixed_params 1000000 1)\<lparr>L_input := 0\<rparr>) 2 3 0.999 = Inr (e1, d2) \<and>
      d1 - e1 = 10) \<and>
   (\<exists>d1 d2 e1. derivadas (fixed_params 1000000 1) 2 3 1 = Inr (d1, d2) \<and>
      derivadas ((fixed_params 1000000 1)\<lparr>L_input := 0\<rparr>) 2 3 1 = Inr (e1, d2) \<and>
      d1 - e1 = 0)"
proof -
  have v1: "V1 (fixed_params 1000000 1) \<noteq> 0" and v2: "V2 (fixed_params 1000000 1) \<noteq> 0"
    by (simp_all add: fixed_params_def)
  have a: "(if (0.999::real) < t_descarga (fixed_params 1000000 1)
            then L_input (fixed_params 1000000 1) / V1 (fixed_params 1000000 1) else 0) = 10"
    by (simp add: fixed_params_def)
  have b: "(if (1::real) < t_descarga (fixed_params 1000000 1)
            then L_input (fixed_params 1000000 1) / V1 (fixed_params 1000000 1) else 0) = 0"
    by (simp add: fixed_params_def)
  show ?thesis
    using source_term_hard_cutoff [OF v1 v2, of 2 3 "0.999"]
      source_term_hard_cutoff [OF v1 v2, of 2 3 1] v1 v2
    unfolding a b by blast
qed

subsection \<open>The trajectory\<close>



subsection \<open>Non-positive step size or horizon\<close>




subsection \<open>Conservation and equilibrium\<close>

text \<open>
  Claim C6. With no decay (\<open>k1 = k2 = 0\<close>), no exchange with the bay (\<open>D1B = 0\<close>) and no
  load (\<open>L_input = 0\<close>), the quantity \<open>V1 C1 + V2 C2\<close> is constant along the run: every pass
  through the loop body preserves it, from any point, and every sample of the trajectory
  carries the value of the initial sample. The equality is exact, in exact arithmetic.
\<close>

theorem mass_conserved:
  assumes "k1 p = 0" and "k2 p = 0" and "D1B p = 0" and "L_input p = 0"
    and "V1 p \<noteq> 0" and "V2 p \<noteq> 0" and "dt p \<noteq> 0"
  shows "(\<forall>s. \<exists>s'. rk4_body p s = Inr s' \<and>
            V1 p * C1 s' + V2 p * C2 s' = V1 p * C1 s + V2 p * C2 s) \<and>
         (\<exists>s. simulate p = Inr s \<and>
            (\<forall>(tm, c1, c2) \<in> set (trajectory s).
               V1 p * c1 + V2 p * c2 = V1 p * C1_0 p + V2 p * C2_0 p))"
proof
  show "\<forall>s. \<exists>s'. rk4_body p s = Inr s' \<and>
            V1 p * C1 s' + V2 p * C2 s' = V1 p * C1 s + V2 p * C2 s"
  proof
    fix s
    have "mass p (cur (advance p s)) = mass p (cur s)"
      by (simp add: cur_advance mass_spec_step [OF assms(1-6)])
    then have "V1 p * C1 (advance p s) + V2 p * C2 (advance p s) = V1 p * C1 s + V2 p * C2 s"
      by (simp add: mass_def cur_def)
    then show "\<exists>s'. rk4_body p s = Inr s' \<and>
            V1 p * C1 s' + V2 p * C2 s' = V1 p * C1 s + V2 p * C2 s"
      by (simp add: rk4_body_Inr [OF assms(5,6)])
  qed
next
  let ?s = "(advance p ^^ steps p) (init_vars p)"
  have "simulate p = Inr ?s"
    by (rule simulate_Inr [OF assms(5-7)])
  moreover have "\<forall>(tm, c1, c2) \<in> set (trajectory ?s).
               V1 p * c1 + V2 p * c2 = V1 p * C1_0 p + V2 p * C2_0 p"
    using trajectory_mass [OF assms(1-6), of "steps p"]
    by (auto simp: mass_def x0_def)
  ultimately show "\<exists>s. simulate p = Inr s \<and>
            (\<forall>(tm, c1, c2) \<in> set (trajectory s).
               V1 p * c1 + V2 p * c2 = V1 p * C1_0 p + V2 p * C2_0 p)"
    by blast
qed

theorem mass_conserved_witness:
  "k1 exchange_only = 0 \<and> k2 exchange_only = 0 \<and> D1B exchange_only = 0 \<and> L_input exchange_only = 0 \<and>
   V1 exchange_only \<noteq> 0 \<and> V2 exchange_only \<noteq> 0 \<and> dt exchange_only \<noteq> 0 \<and>
   (\<forall>s. \<exists>s'. rk4_body exchange_only s = Inr s' \<and>
      100000 * C1 s' + 200000 * C2 s' = 100000 * C1 s + 200000 * C2 s) \<and>
   (\<exists>s. simulate exchange_only = Inr s \<and>
      (\<forall>(tm, c1, c2) \<in> set (trajectory s). 100000 * c1 + 200000 * c2 = 700000))"
proof -
  have h: "k1 exchange_only = 0" "k2 exchange_only = 0" "D1B exchange_only = 0" "L_input exchange_only = 0"
    "V1 exchange_only \<noteq> 0" "V2 exchange_only \<noteq> 0" "dt exchange_only \<noteq> 0"
    by (simp_all add: exchange_only_def fixed_params_def)
  have v: "V1 exchange_only = 100000" "V2 exchange_only = 200000" "C1_0 exchange_only = 5" "C2_0 exchange_only = 1"
    by (simp_all add: exchange_only_def fixed_params_def)
  show ?thesis
    using mass_conserved [OF h] h unfolding v by simp
qed

text \<open>
  Claim C7. With \<open>L_input = 0\<close>, \<open>CB = 0\<close> and the zero initial state, the origin is a
  fixed point of the loop body and every sample of the trajectory has \<open>C1 = C2 = 0\<close>.
\<close>

theorem zero_equilibrium:
  assumes "L_input p = 0" and "CB p = 0" and "C1_0 p = 0" and "C2_0 p = 0"
    and "V1 p \<noteq> 0" and "V2 p \<noteq> 0" and "dt p \<noteq> 0"
  shows "(\<forall>s. C1 s = 0 \<and> C2 s = 0 \<longrightarrow>
            (\<exists>s'. rk4_body p s = Inr s' \<and> C1 s' = 0 \<and> C2 s' = 0)) \<and>
         (\<exists>s. simulate p = Inr s \<and>
            C1_list s = replicate (nat (py_int (Tmax p / dt p)) + 1) 0 \<and>
            C2_list s = replicate (nat (py_int (Tmax p / dt p)) + 1) 0 \<and>
            (\<forall>x \<in> set (trajectory s). snd x = (0, 0)))"
proof
  show "\<forall>s. C1 s = 0 \<and> C2 s = 0 \<longrightarrow>
            (\<exists>s'. rk4_body p s = Inr s' \<and> C1 s' = 0 \<and> C2 s' = 0)"
  proof (intro allI impI)
    fix s :: vars
    assume z: "C1 s = 0 \<and> C2 s = 0"
    then have "cur s = (t s, 0, 0)"
      by (simp add: cur_def)
    then have "cur (advance p s) = (t s + dt p, 0, 0)"
      by (simp add: cur_advance zero_spec_step [OF assms(1,2)])
    then have "C1 (advance p s) = 0 \<and> C2 (advance p s) = 0"
      by (simp add: cur_def)
    then show "\<exists>s'. rk4_body p s = Inr s' \<and> C1 s' = 0 \<and> C2 s' = 0"
      by (simp add: rk4_body_Inr [OF assms(5,6)])
  qed
next
  let ?n = "nat (py_int (Tmax p / dt p))"
  let ?s = "(advance p ^^ ?n) (init_vars p)"
  have x: "x0 p = (0, 0, 0)"
    by (simp add: x0_def assms(3,4))
  have run: "simulate p = Inr ?s"
    using simulate_Inr [OF assms(5-7)] by (simp add: steps_def)
  have l1: "C1_list ?s = replicate (?n + 1) 0"
    by (simp add: C1_list_funpow x zero_funpow [OF assms(1,2)] map_replicate_const del: upt_Suc)
  have l2: "C2_list ?s = replicate (?n + 1) 0"
    by (simp add: C2_list_funpow x zero_funpow [OF assms(1,2)] map_replicate_const del: upt_Suc)
  have tr: "\<forall>x \<in> set (trajectory ?s). snd x = (0, 0)"
    by (simp add: trajectory_funpow x zero_funpow [OF assms(1,2)] del: upt_Suc)
  show "\<exists>s. simulate p = Inr s \<and>
            C1_list s = replicate (nat (py_int (Tmax p / dt p)) + 1) 0 \<and>
            C2_list s = replicate (nat (py_int (Tmax p / dt p)) + 1) 0 \<and>
            (\<forall>x \<in> set (trajectory s). snd x = (0, 0))"
    using run l1 l2 tr by blast
qed

theorem zero_equilibrium_witness:
  "L_input (fixed_params 0 0) = 0 \<and> CB (fixed_params 0 0) = 0 \<and>
   C1_0 (fixed_params 0 0) = 0 \<and> C2_0 (fixed_params 0 0) = 0 \<and>
   V1 (fixed_params 0 0) \<noteq> 0 \<and> V2 (fixed_params 0 0) \<noteq> 0 \<and> dt (fixed_params 0 0) \<noteq> 0 \<and>
   (\<exists>s'. rk4_body (fixed_params 0 0)
           \<lparr> C1 = 0, C2 = 0, t = 5, t_list = [5], C1_list = [0], C2_list = [0] \<rparr> = Inr s' \<and>
         C1 s' = 0 \<and> C2 s' = 0) \<and>
   (\<exists>s. simulate (fixed_params 0 0) = Inr s \<and>
      C1_list s = replicate 301 0 \<and> C2_list s = replicate 301 0 \<and>
      (\<forall>x \<in> set (trajectory s). snd x = (0, 0)))"
proof -
  let ?p = "fixed_params 0 0"
  let ?s = "\<lparr> C1 = 0, C2 = 0, t = 5, t_list = [5], C1_list = [0], C2_list = [0] \<rparr>"
  have h: "L_input ?p = 0" "CB ?p = 0" "C1_0 ?p = 0" "C2_0 ?p = 0"
    "V1 ?p \<noteq> 0" "V2 ?p \<noteq> 0" "dt ?p \<noteq> 0"
    by (simp_all add: fixed_params_def)
  have n: "nat (py_int (Tmax ?p / dt ?p)) + 1 = 301"
    by (simp add: fixed_params_def py_int_def)
  have z: "C1 ?s = 0 \<and> C2 ?s = 0"
    by simp
  have body: "\<exists>s'. rk4_body ?p ?s = Inr s' \<and> C1 s' = 0 \<and> C2 s' = 0"
    using zero_equilibrium [OF h] z by blast
  have run: "\<exists>s. simulate ?p = Inr s \<and>
      C1_list s = replicate 301 0 \<and> C2_list s = replicate 301 0 \<and>
      (\<forall>x \<in> set (trajectory s). snd x = (0, 0))"
    using zero_equilibrium [OF h] unfolding n by blast
  show ?thesis
    using h body run by blast
qed

subsection \<open>Dependence\<close>



text \<open>
  Claim C9. The second component of \<open>derivadas\<close> depends on the state \<open>(c1, c2)\<close> only: a
  call at another time, with another load and another bay concentration, returns the same
  \<open>dC2/dt\<close>, whatever happens to \<open>dC1/dt\<close>.
\<close>

theorem dC2_depends_on_state_only:
  assumes "V1 p \<noteq> 0" and "V2 p \<noteq> 0"
  shows "\<exists>a b d. derivadas p c1 c2 tm = Inr (a, d) \<and>
           derivadas (p\<lparr>L_input := l, CB := cb\<rparr>) c1 c2 tm' = Inr (b, d)"
  using assms by (simp add: derivadas_def)

theorem dC2_depends_on_state_only_witness:
  "V1 (fixed_params 1000000 1) \<noteq> 0 \<and> V2 (fixed_params 1000000 1) \<noteq> 0 \<and>
   (\<exists>a b d. derivadas (fixed_params 1000000 1) 2 3 0.5 = Inr (a, d) \<and>
      derivadas ((fixed_params 1000000 1)\<lparr>L_input := 0, CB := 5\<rparr>) 2 3 7 = Inr (b, d)) \<and>
   derivadas (fixed_params 1000000 1) 2 3 0.5 = Inr (9.48984, - 0.32592) \<and>
   derivadas ((fixed_params 1000000 1)\<lparr>L_input := 0, CB := 5\<rparr>) 2 3 7 = Inr (0.13784, - 0.32592)"
proof -
  have v1: "V1 (fixed_params 1000000 1) \<noteq> 0" and v2: "V2 (fixed_params 1000000 1) \<noteq> 0"
    by (simp_all add: fixed_params_def)
  have a: "derivadas (fixed_params 1000000 1) 2 3 0.5 = Inr (9.48984, - 0.32592)"
    by (simp add: derivadas_def fixed_params_def A1B_def L1B_def E1B_def A12_def L12_def E12_def)
  have b: "derivadas ((fixed_params 1000000 1)\<lparr>L_input := 0, CB := 5\<rparr>) 2 3 7 =
             Inr (0.13784, - 0.32592)"
    by (simp add: derivadas_def fixed_params_def A1B_def L1B_def E1B_def A12_def L12_def E12_def)
  show ?thesis
    using dC2_depends_on_state_only [OF v1 v2, of 2 3 "0.5" 0 5 7] v1 v2 a b by blast
qed

subsection \<open>The conductances\<close>

text \<open>
  Claim C10. The two exchange conductances are computed from the fixed geometry as
  \<open>E A / L \<cdot> 86400\<close>; in exact arithmetic \<open>D1B = 16200\<close> and \<open>D12 = 5184\<close> cubic metres
  per day, whatever the slider inputs.
\<close>

theorem conductances_fixed:
  "D1B (fixed_params l cb) = E1B * A1B / L1B * 86400 \<and>
   D12 (fixed_params l cb) = E12 * A12 / L12 * 86400 \<and>
   D1B (fixed_params l cb) = 16200 \<and>
   D12 (fixed_params l cb) = 5184"
  by (simp add: fixed_params_def A1B_def L1B_def E1B_def A12_def L12_def E12_def)

end
